theory Spec2Isabelle
  imports Main "HOL-Library.Char_ord" "HOL-Library.Product_Lexorder"
begin

section \<open>Python values used by the plugin\<close>

text \<open>
  A \<open>datetime.date\<close> is the triple (year, month, day); a naive \<open>datetime.datetime\<close> is
  (year, month, day, hour, minute, second, microsecond). Python compares two dates, and two
  naive datetimes, as these tuples, that is lexicographically; the order on products used
  here is the lexicographic one.
\<close>

type_synonym date = "nat \<times> nat \<times> nat"
type_synonym datetime = "nat \<times> nat \<times> nat \<times> nat \<times> nat \<times> nat \<times> nat"

datatype temporal = Date date | DateTime datetime

text \<open>
  The exceptions the plugin can raise: \<open>KeyError k\<close> from a dictionary lookup of the
  missing key \<open>k\<close>, \<open>ValueError\<close> from \<open>datetime.strptime\<close>, \<open>TypeError\<close> from ordering a
  date against a datetime.
\<close>

datatype error = KeyError string | ValueError | TypeError

fun bind_result :: "error + 'a \<Rightarrow> ('a \<Rightarrow> error + 'b) \<Rightarrow> error + 'b" where
  "bind_result (Inl e) f = Inl e"
| "bind_result (Inr x) f = f x"

text \<open>\<open>d[k]\<close> on a dictionary: the value, or \<open>KeyError k\<close>.\<close>

definition getitem :: "(string \<rightharpoonup> 'v) \<Rightarrow> string \<Rightarrow> error + 'v" where
  "getitem d k = (case d k of None \<Rightarrow> Inl (KeyError k) | Some v \<Rightarrow> Inr v)"

fun date_of :: "datetime \<Rightarrow> date" where
  "date_of (y, m, d, H, M, S, us) = (y, m, d)"

fun replace_microsecond :: "datetime \<Rightarrow> nat \<Rightarrow> datetime" where
  "replace_microsecond (y, m, d, H, M, S, us) v = (y, m, d, H, M, S, v)"

fun microsecond :: "temporal \<Rightarrow> nat" where
  "microsecond (Date d) = 0"
| "microsecond (DateTime (y, m, d, H, M, S, us)) = us"

subsection \<open>Comparison operators\<close>

text \<open>
  \<open>a == b\<close> and \<open>a != b\<close> never raise: a date and a datetime are simply unequal.
  The four orderings raise \<open>TypeError\<close> when one side is a date and the other a datetime.
\<close>

fun operator_eq :: "temporal \<Rightarrow> temporal \<Rightarrow> error + bool" where
  "operator_eq (Date a) (Date b) = Inr (a = b)"
| "operator_eq (DateTime a) (DateTime b) = Inr (a = b)"
| "operator_eq (Date a) (DateTime b) = Inr False"
| "operator_eq (DateTime a) (Date b) = Inr False"

fun operator_ne :: "temporal \<Rightarrow> temporal \<Rightarrow> error + bool" where
  "operator_ne (Date a) (Date b) = Inr (a \<noteq> b)"
| "operator_ne (DateTime a) (DateTime b) = Inr (a \<noteq> b)"
| "operator_ne (Date a) (DateTime b) = Inr True"
| "operator_ne (DateTime a) (Date b) = Inr True"

fun operator_lt :: "temporal \<Rightarrow> temporal \<Rightarrow> error + bool" where
  "operator_lt (Date a) (Date b) = Inr (a < b)"
| "operator_lt (DateTime a) (DateTime b) = Inr (a < b)"
| "operator_lt (Date a) (DateTime b) = Inl TypeError"
| "operator_lt (DateTime a) (Date b) = Inl TypeError"

fun operator_le :: "temporal \<Rightarrow> temporal \<Rightarrow> error + bool" where
  "operator_le (Date a) (Date b) = Inr (a \<le> b)"
| "operator_le (DateTime a) (DateTime b) = Inr (a \<le> b)"
| "operator_le (Date a) (DateTime b) = Inl TypeError"
| "operator_le (DateTime a) (Date b) = Inl TypeError"

fun operator_gt :: "temporal \<Rightarrow> temporal \<Rightarrow> error + bool" where
  "operator_gt (Date a) (Date b) = Inr (a > b)"
| "operator_gt (DateTime a) (DateTime b) = Inr (a > b)"
| "operator_gt (Date a) (DateTime b) = Inl TypeError"
| "operator_gt (DateTime a) (Date b) = Inl TypeError"

fun operator_ge :: "temporal \<Rightarrow> temporal \<Rightarrow> error + bool" where
  "operator_ge (Date a) (Date b) = Inr (a \<ge> b)"
| "operator_ge (DateTime a) (DateTime b) = Inr (a \<ge> b)"
| "operator_ge (Date a) (DateTime b) = Inl TypeError"
| "operator_ge (DateTime a) (Date b) = Inl TypeError"

section \<open>Regular expressions of the plugin\<close>

text \<open>
  Strings are lists of 8-bit characters. Among the code points 0 to 255 the class \<open>\d\<close> holds
  exactly the ten ASCII digits, and \<open>\s\<close> the code points 9 to 13, 28 to 32, 133 and 160.
\<close>

definition is_digit :: "char \<Rightarrow> bool" where
  "is_digit c = (CHR ''0'' \<le> c \<and> c \<le> CHR ''9'')"

datatype atom = Digit | Between char char | Chr char

fun atom_ok :: "atom \<Rightarrow> char \<Rightarrow> bool" where
  "atom_ok Digit c = is_digit c"
| "atom_ok (Between lo hi) c = (lo \<le> c \<and> c \<le> hi)"
| "atom_ok (Chr x) c = (c = x)"

text \<open>Matches a sequence of one-character atoms at the start of the string; gives the rest.\<close>

fun atoms_match :: "atom list \<Rightarrow> string \<Rightarrow> string option" where
  "atoms_match [] s = Some s"
| "atoms_match (a # as) [] = None"
| "atoms_match (a # as) (c # cs) = (if atom_ok a c then atoms_match as cs else None)"

text \<open>
  \<open>re.match(r"^...$", s)\<close>: the atoms match from the start, and \<open>$\<close> accepts the end of the
  string or the position just before a newline that ends the string.
\<close>

definition re_match :: "atom list \<Rightarrow> string \<Rightarrow> bool" where
  "re_match p s =
     (case atoms_match p s of
        None \<Rightarrow> False
      | Some rest \<Rightarrow> rest = [] \<or> rest = [CHR 0x0A])"

definition date_atoms :: "atom list" where
  "date_atoms = [Digit, Digit, Digit, Digit, Chr (CHR ''-''), Digit, Digit,
                 Chr (CHR ''-''), Digit, Digit]"

definition time_atoms :: "atom list" where
  "time_atoms = [Digit, Digit, Chr (CHR '':''), Digit, Digit, Chr (CHR '':''), Digit, Digit]"

definition pattern_date :: "atom list" where
  "pattern_date = date_atoms"

definition pattern_T :: "atom list" where
  "pattern_T = date_atoms @ [Chr (CHR ''T'')] @ time_atoms"

definition pattern_space :: "atom list" where
  "pattern_space = date_atoms @ [Chr (CHR '' '')] @ time_atoms"

section \<open>The library function \<open>datetime.strptime\<close>\<close>

text \<open>
  \<open>strptime\<close> turns the format into a regular expression, one named group of alternatives
  for each directive, every run of whitespace of the format into \<open>\s+\<close>, compiled ignoring
  case. It takes the first match the backtracking search finds at the start of the string,
  and raises \<open>ValueError\<close> when there is none, when the match does not reach the end of the
  string, or when the numbers read are not a date and a time of day.
\<close>

datatype fmt_item = Directive char "atom list list" | Literal char | Whitespace

definition re_Y :: "atom list list" where
  "re_Y = [[Digit, Digit, Digit, Digit]]"

definition re_m :: "atom list list" where
  "re_m = [[Chr (CHR ''1''), Between (CHR ''0'') (CHR ''2'')],
           [Chr (CHR ''0''), Between (CHR ''1'') (CHR ''9'')],
           [Between (CHR ''1'') (CHR ''9'')]]"

definition re_d :: "atom list list" where
  "re_d = [[Chr (CHR ''3''), Between (CHR ''0'') (CHR ''1'')],
           [Between (CHR ''1'') (CHR ''2''), Digit],
           [Chr (CHR ''0''), Between (CHR ''1'') (CHR ''9'')],
           [Between (CHR ''1'') (CHR ''9'')],
           [Chr (CHR '' ''), Between (CHR ''1'') (CHR ''9'')]]"

definition re_H :: "atom list list" where
  "re_H = [[Chr (CHR ''2''), Between (CHR ''0'') (CHR ''3'')],
           [Between (CHR ''0'') (CHR ''1''), Digit],
           [Digit]]"

definition re_M :: "atom list list" where
  "re_M = [[Between (CHR ''0'') (CHR ''5''), Digit],
           [Digit]]"

definition re_S :: "atom list list" where
  "re_S = [[Chr (CHR ''6''), Between (CHR ''0'') (CHR ''1'')],
           [Between (CHR ''0'') (CHR ''5''), Digit],
           [Digit]]"

definition fmt_date :: "fmt_item list" where
  "fmt_date = [Directive (CHR ''Y'') re_Y, Literal (CHR ''-''), Directive (CHR ''m'') re_m,
               Literal (CHR ''-''), Directive (CHR ''d'') re_d]"

definition fmt_time :: "fmt_item list" where
  "fmt_time = [Directive (CHR ''H'') re_H, Literal (CHR '':''), Directive (CHR ''M'') re_M,
               Literal (CHR '':''), Directive (CHR ''S'') re_S]"

definition fmt_T :: "fmt_item list" where
  "fmt_T = fmt_date @ [Literal (CHR ''T'')] @ fmt_time"

definition fmt_space :: "fmt_item list" where
  "fmt_space = fmt_date @ [Whitespace] @ fmt_time"

definition is_space :: "char \<Rightarrow> bool" where
  "is_space c = ((of_char c :: nat) \<in> {9, 10, 11, 12, 13, 28, 29, 30, 31, 32, 133, 160})"

definition ascii_lower :: "char \<Rightarrow> char" where
  "ascii_lower c =
     (if CHR ''A'' \<le> c \<and> c \<le> CHR ''Z'' then char_of (of_char c + (32 :: nat)) else c)"

text \<open>
  All matches of the format at the start of the string, in the order the backtracking
  search meets them: the captured groups and the unread rest. A literal of the format is
  compared ignoring case; \<open>\s+\<close> is greedy and gives characters back one at a time.
\<close>

fun fmt_match :: "fmt_item list \<Rightarrow> string \<Rightarrow> ((char \<times> string) list \<times> string) list" where
  "fmt_match [] s = [([], s)]"
| "fmt_match (Directive k alts # fs) s =
     concat (map (\<lambda>alt.
        case atoms_match alt s of
          None \<Rightarrow> []
        | Some rest \<Rightarrow>
            map (\<lambda>(found, r). ((k, take (length alt) s) # found, r)) (fmt_match fs rest))
      alts)"
| "fmt_match (Literal c # fs) s =
     (case s of
        [] \<Rightarrow> []
      | x # xs \<Rightarrow> if ascii_lower x = ascii_lower c then fmt_match fs xs else [])"
| "fmt_match (Whitespace # fs) s =
     concat (map (\<lambda>n. fmt_match fs (drop n s))
       (rev [1 ..< Suc (length (takeWhile is_space s))]))"

text \<open>\<open>int(t)\<close> on a captured group, read as a decimal number.\<close>

definition digit_value :: "char \<Rightarrow> nat" where
  "digit_value c = of_char c - 48"

definition int_of_digits :: "string \<Rightarrow> nat" where
  "int_of_digits t = foldl (\<lambda>n c. 10 * n + digit_value c) 0 t"

definition group_val :: "(char \<times> string) list \<Rightarrow> char \<Rightarrow> nat \<Rightarrow> nat" where
  "group_val found k dflt =
     (case map_of found k of None \<Rightarrow> dflt | Some t \<Rightarrow> int_of_digits t)"

definition is_leap :: "nat \<Rightarrow> bool" where
  "is_leap year = (year mod 4 = 0 \<and> (year mod 100 \<noteq> 0 \<or> year mod 400 = 0))"

definition days_in_month :: "nat \<Rightarrow> nat \<Rightarrow> nat" where
  "days_in_month year month =
     (if month = 2 \<and> is_leap year then 29
      else [0, 31, 28, 31, 30, 31, 30, 31, 31, 30, 31, 30, 31] ! month)"

definition check_date_fields :: "nat \<Rightarrow> nat \<Rightarrow> nat \<Rightarrow> bool" where
  "check_date_fields year month day =
     (1 \<le> year \<and> year \<le> 9999 \<and> 1 \<le> month \<and> month \<le> 12 \<and>
      1 \<le> day \<and> day \<le> days_in_month year month)"

definition check_time_fields :: "nat \<Rightarrow> nat \<Rightarrow> nat \<Rightarrow> bool" where
  "check_time_fields hour minute second = (hour \<le> 23 \<and> minute \<le> 59 \<and> second \<le> 59)"

definition datetime_strptime :: "string \<Rightarrow> fmt_item list \<Rightarrow> error + datetime" where
  "datetime_strptime data_string fmt =
     (case fmt_match fmt data_string of
        [] \<Rightarrow> Inl ValueError
      | (found, rest) # _ \<Rightarrow>
          if rest \<noteq> [] then Inl ValueError
          else
            let year = group_val found (CHR ''Y'') 1900;
                month = group_val found (CHR ''m'') 1;
                day = group_val found (CHR ''d'') 1;
                hour = group_val found (CHR ''H'') 0;
                minute = group_val found (CHR ''M'') 0;
                second = group_val found (CHR ''S'') 0
            in if check_date_fields year month day \<and> check_time_fields hour minute second
               then Inr (year, month, day, hour, minute, second, 0)
               else Inl ValueError)"

section \<open>The filter module\<close>

text \<open>
  The argument \<open>today\<close> is the value \<open>datetime.today()\<close> returns: the local clock, read at
  one fixed instant for the whole call.
\<close>

definition get_dates :: "datetime \<Rightarrow> string \<Rightarrow> error + (string \<rightharpoonup> temporal)" where
  "get_dates today datestring =
     bind_result
       (if re_match pattern_date datestring
        then bind_result (datetime_strptime datestring fmt_date) (\<lambda>parsed.
               Inr (Map.empty(''now_date'' \<mapsto> Date (date_of today),
                              ''check_date'' \<mapsto> Date (date_of parsed))))
        else Inr Map.empty) (\<lambda>dates.
     bind_result
       (if re_match pattern_T datestring
        then bind_result (datetime_strptime datestring fmt_T) (\<lambda>parsed.
               Inr (dates(''now_date'' \<mapsto> DateTime (replace_microsecond today 0),
                          ''check_date'' \<mapsto> DateTime parsed)))
        else Inr dates) (\<lambda>dates.
     bind_result
       (if re_match pattern_space datestring
        then bind_result (datetime_strptime datestring fmt_space) (\<lambda>parsed.
               Inr (dates(''now_date'' \<mapsto> DateTime (replace_microsecond today 0),
                          ''check_date'' \<mapsto> DateTime parsed)))
        else Inr dates) (\<lambda>dates.
     Inr dates)))"

definition ops :: "string \<rightharpoonup> (temporal \<Rightarrow> temporal \<Rightarrow> error + bool)" where
  "ops = Map.empty(''=='' \<mapsto> operator_eq, ''>'' \<mapsto> operator_gt, ''>='' \<mapsto> operator_ge,
                   ''<='' \<mapsto> operator_le, ''<'' \<mapsto> operator_lt, ''!='' \<mapsto> operator_ne)"

text \<open>
  The operator argument is \<open>None\<close> when absent; \<open>not date_operator\<close> holds for \<open>None\<close> and
  for the empty string.
\<close>

definition is_due :: "datetime \<Rightarrow> string \<Rightarrow> string option \<Rightarrow> error + bool" where
  "is_due today datestring date_operator =
     (let date_operator =
            (case date_operator of
               None \<Rightarrow> ''==''
             | Some s \<Rightarrow> if s = [] then ''=='' else s)
      in bind_result (bind_result (get_dates today datestring) (\<lambda>d. getitem d ''check_date''))
           (\<lambda>check_date.
         bind_result (bind_result (get_dates today datestring) (\<lambda>d. getitem d ''now_date''))
           (\<lambda>now_date.
         bind_result (getitem ops date_operator) (\<lambda>f. f now_date check_date))))"

definition is_past :: "datetime \<Rightarrow> string \<Rightarrow> error + bool" where
  "is_past today datestring =
     bind_result (bind_result (get_dates today datestring) (\<lambda>d. getitem d ''check_date''))
       (\<lambda>check_date.
     bind_result (bind_result (get_dates today datestring) (\<lambda>d. getitem d ''now_date''))
       (\<lambda>now_date.
     bind_result (operator_lt check_date now_date) (\<lambda>b.
       if b then Inr True else Inr False)))"

definition is_today_or_past :: "datetime \<Rightarrow> string \<Rightarrow> error + bool" where
  "is_today_or_past today datestring =
     bind_result (bind_result (get_dates today datestring) (\<lambda>d. getitem d ''check_date''))
       (\<lambda>check_date.
     bind_result (bind_result (get_dates today datestring) (\<lambda>d. getitem d ''now_date''))
       (\<lambda>now_date.
     bind_result (operator_le check_date now_date) (\<lambda>b.
       if b then Inr True else Inr False)))"

definition is_future :: "datetime \<Rightarrow> string \<Rightarrow> error + bool" where
  "is_future today datestring =
     bind_result (bind_result (get_dates today datestring) (\<lambda>d. getitem d ''check_date''))
       (\<lambda>check_date.
     bind_result (bind_result (get_dates today datestring) (\<lambda>d. getitem d ''now_date''))
       (\<lambda>now_date.
     bind_result (operator_gt check_date now_date) (\<lambda>b.
       if b then Inr True else Inr False)))"

definition is_today_or_future :: "datetime \<Rightarrow> string \<Rightarrow> error + bool" where
  "is_today_or_future today datestring =
     bind_result (bind_result (get_dates today datestring) (\<lambda>d. getitem d ''check_date''))
       (\<lambda>check_date.
     bind_result (bind_result (get_dates today datestring) (\<lambda>d. getitem d ''now_date''))
       (\<lambda>now_date.
     bind_result (operator_ge check_date now_date) (\<lambda>b.
       if b then Inr True else Inr False)))"

definition is_today :: "datetime \<Rightarrow> string \<Rightarrow> error + bool" where
  "is_today today datestring =
     bind_result (bind_result (get_dates today datestring) (\<lambda>d. getitem d ''check_date''))
       (\<lambda>check_date.
     bind_result (bind_result (get_dates today datestring) (\<lambda>d. getitem d ''now_date''))
       (\<lambda>now_date.
     bind_result (operator_eq check_date now_date) (\<lambda>b.
       if b then Inr True else Inr False)))"

text \<open>
  The bound methods the table holds: the five predicates take the date string, \<open>is_due\<close>
  takes the date string and an optional operator.
\<close>

datatype filter_fn =
    Filter1 "datetime \<Rightarrow> string \<Rightarrow> error + bool"
  | Filter2 "datetime \<Rightarrow> string \<Rightarrow> string option \<Rightarrow> error + bool"

definition filters :: "(string \<times> filter_fn) list" where
  "filters =
     [(''is_due'', Filter2 is_due),
      (''is_future'', Filter1 is_future),
      (''is_past'', Filter1 is_past),
      (''is_today_or_future'', Filter1 is_today_or_future),
      (''is_today_or_past'', Filter1 is_today_or_past),
      (''is_today'', Filter1 is_today)]"

section \<open>Notions used to state the properties\<close>

text \<open>
  The calendar date and the time of day a string carries at the fixed columns of
  \<open>YYYY-MM-DD\<close> and \<open>HH:MM:SS\<close>, read as decimal numbers.
\<close>

definition date_fields :: "string \<Rightarrow> date" where
  "date_fields s = (int_of_digits (take 4 s), int_of_digits (take 2 (drop 5 s)),
                    int_of_digits (take 2 (drop 8 s)))"

definition time_fields :: "string \<Rightarrow> nat \<times> nat \<times> nat" where
  "time_fields s = (int_of_digits (take 2 (drop 11 s)), int_of_digits (take 2 (drop 14 s)),
                    int_of_digits (take 2 (drop 17 s)))"

text \<open>
  A real calendar date (year 1 to 9999, the day within the month) and a real time of day,
  as the constructors \<open>date\<close> and \<open>datetime\<close> check them.
\<close>

fun valid_date :: "date \<Rightarrow> bool" where
  "valid_date (y, m, d) = check_date_fields y m d"

fun valid_time :: "nat \<times> nat \<times> nat \<Rightarrow> bool" where
  "valid_time (H, M, S) = check_time_fields H M S"

fun timestamp :: "date \<Rightarrow> nat \<times> nat \<times> nat \<Rightarrow> datetime" where
  "timestamp (y, m, d) (H, M, S) = (y, m, d, H, M, S, 0)"

text \<open>
  A valid date string: the exact ten-character date form, or the exact nineteen-character
  timestamp form with either separator, naming a real date (and time of day).
\<close>

definition date_only_string :: "string \<Rightarrow> bool" where
  "date_only_string s \<longleftrightarrow> length s = 10 \<and> re_match pattern_date s \<and> valid_date (date_fields s)"

definition timestamp_string :: "string \<Rightarrow> bool" where
  "timestamp_string s \<longleftrightarrow>
     length s = 19 \<and> (re_match pattern_T s \<or> re_match pattern_space s) \<and>
     valid_date (date_fields s) \<and> valid_time (time_fields s)"

definition valid_datestring :: "string \<Rightarrow> bool" where
  "valid_datestring s \<longleftrightarrow> date_only_string s \<or> timestamp_string s"

text \<open>The six operator symbols the specification lists.\<close>

definition recognized_operators :: "string list" where
  "recognized_operators = [''=='', ''>'', ''>='', ''<='', ''<'', ''!='']"

text \<open>\<open>a or b\<close> on the results of two predicate calls; \<open>b\<close> is evaluated only when \<open>a\<close> is false.\<close>

definition py_or :: "error + bool \<Rightarrow> error + bool \<Rightarrow> error + bool" where
  "py_or a b = bind_result a (\<lambda>p. if p then Inr True else b)"

fun same_variant :: "temporal \<Rightarrow> temporal \<Rightarrow> bool" where
  "same_variant (Date a) (Date b) = True"
| "same_variant (DateTime a) (DateTime b) = True"
| "same_variant (Date a) (DateTime b) = False"
| "same_variant (DateTime a) (Date b) = False"

text \<open>The characters that follow a two-digit field in the three formats.\<close>

definition separator :: "char \<Rightarrow> bool" where
  "separator l \<longleftrightarrow> l = CHR ''-'' \<or> l = CHR '':'' \<or> l = CHR ''T''"

text \<open>A clock reading for the examples: 15 June 2030, 12:30:45.123456.\<close>

definition sample_today :: datetime where
  "sample_today = (2030, 6, 15, 12, 30, 45, 123456)"

section \<open>Evaluation of the definitions\<close>

lemmas eval_defs =
  is_due_def is_past_def is_today_or_past_def is_future_def is_today_or_future_def is_today_def
  get_dates_def re_match_def pattern_date_def date_atoms_def time_atoms_def pattern_T_def
  pattern_space_def datetime_strptime_def fmt_date_def fmt_time_def fmt_T_def fmt_space_def
  re_Y_def re_m_def re_d_def re_H_def re_M_def re_S_def ascii_lower_def is_space_def
  is_digit_def digit_value_def group_val_def int_of_digits_def check_date_fields_def
  check_time_fields_def days_in_month_def is_leap_def getitem_def ops_def sample_today_def
  date_fields_def time_fields_def date_only_string_def timestamp_string_def
  valid_datestring_def recognized_operators_def

section \<open>Comparison operators and the operator table\<close>

lemma operator_gt_lt: "operator_gt a b = operator_lt b a"
  by (cases a; cases b) simp_all

lemma operator_ge_le: "operator_ge a b = operator_le b a"
  by (cases a; cases b) simp_all

lemma operator_eq_sym: "operator_eq a b = operator_eq b a"
  by (cases a; cases b) auto

lemma operator_ne_eq: "operator_ne a b = bind_result (operator_eq b a) (\<lambda>b. Inr (\<not> b))"
  by (cases a; cases b) auto

lemma operator_eq_no_error: "operator_eq a b \<noteq> Inl e"
  by (cases a; cases b) simp_all

lemma operator_total:
  assumes "same_variant n c"
  shows "\<exists>b. operator_eq n c = Inr b" "\<exists>b. operator_ne n c = Inr b" "\<exists>b. operator_lt n c = Inr b"
    "\<exists>b. operator_le n c = Inr b" "\<exists>b. operator_gt n c = Inr b" "\<exists>b. operator_ge n c = Inr b"
  using assms by (cases n; cases c; simp)+

lemma bind_result_bool [simp]: "bind_result r (\<lambda>b. if b then Inr True else Inr False) = r"
  by (cases r) auto

lemma ops_simps [simp]:
  "ops ''=='' = Some operator_eq" "ops ''>'' = Some operator_gt" "ops ''>='' = Some operator_ge"
  "ops ''<='' = Some operator_le" "ops ''<'' = Some operator_lt" "ops ''!='' = Some operator_ne"
  by (simp_all add: ops_def)

lemma getitem_ops [simp]:
  "getitem ops ''=='' = Inr operator_eq" "getitem ops ''>'' = Inr operator_gt"
  "getitem ops ''>='' = Inr operator_ge" "getitem ops ''<='' = Inr operator_le"
  "getitem ops ''<'' = Inr operator_lt" "getitem ops ''!='' = Inr operator_ne"
  by (simp_all add: getitem_def)

lemma dom_ops: "dom ops = set recognized_operators"
  by (auto simp: ops_def recognized_operators_def split: if_splits)

section \<open>Digits and the directives of \<open>strptime\<close>\<close>

lemma char_eq_nat: "(c = d) \<longleftrightarrow> (of_char c :: nat) = of_char d"
  by auto

lemma is_digit_nat: "is_digit c \<longleftrightarrow> 48 \<le> (of_char c :: nat) \<and> (of_char c :: nat) \<le> 57"
  by (simp add: is_digit_def less_eq_char_def)

lemma int_of_digits_2 [simp]: "int_of_digits [a, b] = 10 * digit_value a + digit_value b"
  by (simp add: int_of_digits_def)

lemma int_of_digits_1 [simp]: "int_of_digits [a] = digit_value a"
  by (simp add: int_of_digits_def)

lemma int_of_digits_4 [simp]:
  "int_of_digits [a, b, c, d] =
     1000 * digit_value a + 100 * digit_value b + 10 * digit_value c + digit_value d"
  by (simp add: int_of_digits_def)

lemma digit_not_literal:
  assumes "is_digit b" "separator l"
  shows "ascii_lower b \<noteq> ascii_lower l"
proof -
  have "ascii_lower b = b" using assms(1) by (auto simp: ascii_lower_def is_digit_nat less_eq_char_def)
  moreover have "(of_char (ascii_lower l) :: nat) \<in> {45, 58, 116}"
    using assms(2) by (auto simp: ascii_lower_def separator_def)
  ultimately show ?thesis using assms(1) by (auto simp: is_digit_nat)
qed

lemma literal_rejects_digit [simp]:
  "is_digit b \<Longrightarrow> separator l \<Longrightarrow> fmt_match (Literal l # fs) (b # rest) = []"
  using digit_not_literal by simp

lemma digit_not_space: "is_digit b \<Longrightarrow> \<not> is_space b"
  by (auto simp: is_digit_nat is_space_def)

lemma whitespace_rejects_digit [simp]:
  "is_digit b \<Longrightarrow> fmt_match (Whitespace # fs) (b # rest) = []"
  by (simp add: digit_not_space)

lemma whitespace_one_space [simp]:
  "is_digit b \<Longrightarrow> fmt_match (Whitespace # fs) (CHR '' '' # b # rest) = fmt_match fs (b # rest)"
proof -
  assume d: "is_digit b"
  have "is_space (CHR '' '')" by (simp add: is_space_def)
  with digit_not_space [OF d]
  have tw: "takeWhile is_space (CHR '' '' # b # rest) = [CHR '' '']" by simp
  show ?thesis unfolding fmt_match.simps tw by simp
qed

lemma literal_same [simp]:
  "fmt_match (Literal l # fs) (l # rest) = fmt_match fs rest"
  by simp

lemma year_directive:
  assumes "is_digit a" "is_digit b" "is_digit c" "is_digit d"
  shows "fmt_match (Directive k re_Y # fs) (a # b # c # d # rest) =
     map (\<lambda>(found, r). ((k, [a, b, c, d]) # found, r)) (fmt_match fs rest)"
  using assms by (simp add: re_Y_def)

lemma month_directive:
  assumes "is_digit a" "is_digit b" "fmt_match fs (b # rest) = []"
  shows "fmt_match (Directive k re_m # fs) (a # b # rest) =
    (if 1 \<le> 10 * digit_value a + digit_value b \<and> 10 * digit_value a + digit_value b \<le> 12
     then map (\<lambda>(found, r). ((k, [a, b]) # found, r)) (fmt_match fs rest)
     else [])"
  using assms
  by (auto simp add: re_m_def is_digit_nat less_eq_char_def char_eq_nat digit_value_def)

lemma day_directive:
  assumes "is_digit a" "is_digit b" "fmt_match fs (b # rest) = []"
  shows "fmt_match (Directive k re_d # fs) (a # b # rest) =
    (if 1 \<le> 10 * digit_value a + digit_value b \<and> 10 * digit_value a + digit_value b \<le> 31
     then map (\<lambda>(found, r). ((k, [a, b]) # found, r)) (fmt_match fs rest)
     else [])"
  using assms
  by (auto simp add: re_d_def is_digit_nat less_eq_char_def char_eq_nat digit_value_def)

lemma day_directive_last:
  assumes "is_digit a" "is_digit b"
  shows "fmt_match [Directive k re_d] (a # b # rest) =
    (if 1 \<le> 10 * digit_value a + digit_value b \<and> 10 * digit_value a + digit_value b \<le> 31
     then [([(k, [a, b])], rest)] else []) @
    (if 1 \<le> digit_value a then [([(k, [a])], b # rest)] else [])"
  using assms
  by (auto simp add: re_d_def is_digit_nat less_eq_char_def char_eq_nat digit_value_def)

lemma hour_directive:
  assumes "is_digit a" "is_digit b" "fmt_match fs (b # rest) = []"
  shows "fmt_match (Directive k re_H # fs) (a # b # rest) =
    (if 10 * digit_value a + digit_value b \<le> 23
     then map (\<lambda>(found, r). ((k, [a, b]) # found, r)) (fmt_match fs rest)
     else [])"
  using assms
  by (auto simp add: re_H_def is_digit_nat less_eq_char_def char_eq_nat digit_value_def)

lemma minute_directive:
  assumes "is_digit a" "is_digit b" "fmt_match fs (b # rest) = []"
  shows "fmt_match (Directive k re_M # fs) (a # b # rest) =
    (if 10 * digit_value a + digit_value b \<le> 59
     then map (\<lambda>(found, r). ((k, [a, b]) # found, r)) (fmt_match fs rest)
     else [])"
  using assms
  by (auto simp add: re_M_def is_digit_nat less_eq_char_def char_eq_nat digit_value_def)

lemma second_directive_last:
  assumes "is_digit a" "is_digit b"
  shows "fmt_match [Directive k re_S] (a # b # rest) =
    (if 10 * digit_value a + digit_value b \<le> 61
     then [([(k, [a, b])], rest)] else []) @ [([(k, [a])], b # rest)]"
  using assms
  by (auto simp add: re_S_def is_digit_nat less_eq_char_def char_eq_nat digit_value_def)

lemma group_val_simps [simp]:
  "group_val [] k dflt = dflt"
  "group_val ((k', t) # found) k dflt = (if k = k' then int_of_digits t else group_val found k dflt)"
  by (simp_all add: group_val_def)

lemma check_time_fields_0 [simp]: "check_time_fields 0 0 0"
  by (simp add: check_time_fields_def)

lemma days_in_month_le: "1 \<le> m \<Longrightarrow> m \<le> 12 \<Longrightarrow> days_in_month y m \<le> 31"
proof -
  assume "1 \<le> m" "m \<le> 12"
  then have "m \<in> {1,2,3,4,5,6,7,8,9,10,11,12}" by (simp; arith)
  then show ?thesis by (auto simp: days_in_month_def)
qed

lemma check_date_fields_regex:
  "check_date_fields y m d \<Longrightarrow> 1 \<le> m \<and> m \<le> 12 \<and> 1 \<le> d \<and> d \<le> 31"
  using days_in_month_le [of m y] by (auto simp: check_date_fields_def)

section \<open>The shape of a matching string\<close>

lemma atoms_match_Cons_iff:
  "atoms_match (a # as) s = Some r \<longleftrightarrow> (\<exists>c cs. s = c # cs \<and> atom_ok a c \<and> atoms_match as cs = Some r)"
  by (cases s) auto

lemma atoms_match_append:
  "atoms_match (p @ q) s =
     (case atoms_match p s of None \<Rightarrow> None | Some r \<Rightarrow> atoms_match q r)"
proof (induction p arbitrary: s)
  case Nil
  show ?case by simp
next
  case (Cons a p)
  show ?case by (cases s) (simp_all add: Cons.IH)
qed

lemma atoms_match_exact:
  "length p = length d \<Longrightarrow>
   atoms_match p (d @ r) = (if atoms_match p d = Some [] then Some r else None)"
  by (induction p d rule: list_induct2) auto

lemma length_date_atoms [simp]: "length date_atoms = 10"
  by (simp add: date_atoms_def)

lemma date_atoms_shape:
  assumes "atoms_match date_atoms s = Some r"
  obtains c0 c1 c2 c3 c5 c6 c8 c9 where
    "s = c0 # c1 # c2 # c3 # CHR ''-'' # c5 # c6 # CHR ''-'' # c8 # c9 # r"
    "is_digit c0" "is_digit c1" "is_digit c2" "is_digit c3"
    "is_digit c5" "is_digit c6" "is_digit c8" "is_digit c9"
  using assms unfolding date_atoms_def
  by (auto simp add: atoms_match_Cons_iff)

lemma time_atoms_shape:
  assumes "atoms_match time_atoms s = Some r"
  obtains h1 h2 m1 m2 s1 s2 where
    "s = h1 # h2 # CHR '':'' # m1 # m2 # CHR '':'' # s1 # s2 # r"
    "is_digit h1" "is_digit h2" "is_digit m1" "is_digit m2" "is_digit s1" "is_digit s2"
  using assms unfolding time_atoms_def
  by (auto simp add: atoms_match_Cons_iff)

lemma re_match_date_iff:
  "re_match pattern_date s \<longleftrightarrow>
     atoms_match date_atoms s = Some [] \<or> atoms_match date_atoms s = Some [CHR 0x0A]"
  by (auto simp: re_match_def pattern_date_def split: option.splits)

lemma re_match_T_iff:
  "re_match pattern_T s \<longleftrightarrow>
     (\<exists>r. atoms_match date_atoms s = Some (CHR ''T'' # r) \<and>
          (atoms_match time_atoms r = Some [] \<or> atoms_match time_atoms r = Some [CHR 0x0A]))"
  by (auto simp: re_match_def pattern_T_def atoms_match_append atoms_match_Cons_iff
      split: option.splits)

lemma re_match_space_iff:
  "re_match pattern_space s \<longleftrightarrow>
     (\<exists>r. atoms_match date_atoms s = Some (CHR '' '' # r) \<and>
          (atoms_match time_atoms r = Some [] \<or> atoms_match time_atoms r = Some [CHR 0x0A]))"
  by (auto simp: re_match_def pattern_space_def atoms_match_append atoms_match_Cons_iff
      split: option.splits)

lemma patterns_exclusive:
  "\<not> (re_match pattern_date s \<and> re_match pattern_T s)"
  "\<not> (re_match pattern_date s \<and> re_match pattern_space s)"
  "\<not> (re_match pattern_T s \<and> re_match pattern_space s)"
  by (auto simp: re_match_date_iff re_match_T_iff re_match_space_iff)

lemma separated_string_matches:
  assumes "length d = 10"
  shows "\<not> re_match pattern_date (d @ CHR ''T'' # t)" "\<not> re_match pattern_space (d @ CHR ''T'' # t)"
    "\<not> re_match pattern_date (d @ CHR '' '' # t)" "\<not> re_match pattern_T (d @ CHR '' '' # t)"
    "re_match pattern_T (d @ CHR ''T'' # t) \<longleftrightarrow> re_match pattern_space (d @ CHR '' '' # t)"
  using assms
  by (simp_all add: re_match_date_iff re_match_T_iff re_match_space_iff atoms_match_exact)

lemma separated_string_fields:
  assumes "length d = 10"
  shows "date_fields (d @ x # t) = date_fields d" "time_fields (d @ x # t) = time_fields (d @ y # t)"
  using assms by (simp_all add: date_fields_def time_fields_def)

section \<open>\<open>strptime\<close> on a matching string\<close>

lemma fmt_match_date:
  assumes "is_digit c0" "is_digit c1" "is_digit c2" "is_digit c3"
    "is_digit c5" "is_digit c6" "is_digit c8" "is_digit c9"
  shows "fmt_match fmt_date (c0 # c1 # c2 # c3 # CHR ''-'' # c5 # c6 # CHR ''-'' # c8 # c9 # r) =
    (if 1 \<le> 10 * digit_value c5 + digit_value c6 \<and> 10 * digit_value c5 + digit_value c6 \<le> 12
     then (if 1 \<le> 10 * digit_value c8 + digit_value c9 \<and> 10 * digit_value c8 + digit_value c9 \<le> 31
           then [([(CHR ''Y'', [c0, c1, c2, c3]), (CHR ''m'', [c5, c6]), (CHR ''d'', [c8, c9])], r)]
           else []) @
          (if 1 \<le> digit_value c8
           then [([(CHR ''Y'', [c0, c1, c2, c3]), (CHR ''m'', [c5, c6]), (CHR ''d'', [c8])], c9 # r)]
           else [])
     else [])"
  unfolding fmt_date_def
  using assms
  by (simp add: year_directive month_directive day_directive_last separator_def
      del: fmt_match.simps)

lemma fmt_match_T:
  assumes "is_digit c0" "is_digit c1" "is_digit c2" "is_digit c3"
    "is_digit c5" "is_digit c6" "is_digit c8" "is_digit c9"
    "is_digit h1" "is_digit h2" "is_digit m1" "is_digit m2" "is_digit s1" "is_digit s2"
  shows "fmt_match fmt_T (c0 # c1 # c2 # c3 # CHR ''-'' # c5 # c6 # CHR ''-'' # c8 # c9 #
           CHR ''T'' # h1 # h2 # CHR '':'' # m1 # m2 # CHR '':'' # s1 # s2 # r) =
    (if 1 \<le> 10 * digit_value c5 + digit_value c6 \<and> 10 * digit_value c5 + digit_value c6 \<le> 12 \<and>
        1 \<le> 10 * digit_value c8 + digit_value c9 \<and> 10 * digit_value c8 + digit_value c9 \<le> 31 \<and>
        10 * digit_value h1 + digit_value h2 \<le> 23 \<and> 10 * digit_value m1 + digit_value m2 \<le> 59
     then (if 10 * digit_value s1 + digit_value s2 \<le> 61
           then [([(CHR ''Y'', [c0, c1, c2, c3]), (CHR ''m'', [c5, c6]), (CHR ''d'', [c8, c9]),
                   (CHR ''H'', [h1, h2]), (CHR ''M'', [m1, m2]), (CHR ''S'', [s1, s2])], r)]
           else []) @
          [([(CHR ''Y'', [c0, c1, c2, c3]), (CHR ''m'', [c5, c6]), (CHR ''d'', [c8, c9]),
             (CHR ''H'', [h1, h2]), (CHR ''M'', [m1, m2]), (CHR ''S'', [s1])], s2 # r)]
     else [])"
  unfolding fmt_T_def fmt_date_def fmt_time_def
  using assms
  by (simp add: year_directive month_directive day_directive hour_directive minute_directive
      second_directive_last separator_def del: fmt_match.simps)

lemma fmt_match_space:
  assumes "is_digit c0" "is_digit c1" "is_digit c2" "is_digit c3"
    "is_digit c5" "is_digit c6" "is_digit c8" "is_digit c9"
    "is_digit h1" "is_digit h2" "is_digit m1" "is_digit m2" "is_digit s1" "is_digit s2"
  shows "fmt_match fmt_space (c0 # c1 # c2 # c3 # CHR ''-'' # c5 # c6 # CHR ''-'' # c8 # c9 #
           CHR '' '' # h1 # h2 # CHR '':'' # m1 # m2 # CHR '':'' # s1 # s2 # r) =
    (if 1 \<le> 10 * digit_value c5 + digit_value c6 \<and> 10 * digit_value c5 + digit_value c6 \<le> 12 \<and>
        1 \<le> 10 * digit_value c8 + digit_value c9 \<and> 10 * digit_value c8 + digit_value c9 \<le> 31 \<and>
        10 * digit_value h1 + digit_value h2 \<le> 23 \<and> 10 * digit_value m1 + digit_value m2 \<le> 59
     then (if 10 * digit_value s1 + digit_value s2 \<le> 61
           then [([(CHR ''Y'', [c0, c1, c2, c3]), (CHR ''m'', [c5, c6]), (CHR ''d'', [c8, c9]),
                   (CHR ''H'', [h1, h2]), (CHR ''M'', [m1, m2]), (CHR ''S'', [s1, s2])], r)]
           else []) @
          [([(CHR ''Y'', [c0, c1, c2, c3]), (CHR ''m'', [c5, c6]), (CHR ''d'', [c8, c9]),
             (CHR ''H'', [h1, h2]), (CHR ''M'', [m1, m2]), (CHR ''S'', [s1])], s2 # r)]
     else [])"
  unfolding fmt_space_def fmt_date_def fmt_time_def
  using assms
  by (simp add: year_directive month_directive day_directive hour_directive minute_directive
      second_directive_last separator_def del: fmt_match.simps)

lemma strptime_date:
  assumes "is_digit c0" "is_digit c1" "is_digit c2" "is_digit c3"
    "is_digit c5" "is_digit c6" "is_digit c8" "is_digit c9"
  shows "datetime_strptime (c0 # c1 # c2 # c3 # CHR ''-'' # c5 # c6 # CHR ''-'' # c8 # c9 # r) fmt_date =
    (if r = [] \<and> check_date_fields (int_of_digits [c0, c1, c2, c3]) (int_of_digits [c5, c6])
          (int_of_digits [c8, c9])
     then Inr (int_of_digits [c0, c1, c2, c3], int_of_digits [c5, c6], int_of_digits [c8, c9], 0, 0, 0, 0)
     else Inl ValueError)"
  using check_date_fields_regex [of "int_of_digits [c0, c1, c2, c3]" "int_of_digits [c5, c6]"
      "int_of_digits [c8, c9]"]
  unfolding datetime_strptime_def fmt_match_date [OF assms]
  by (auto simp: Let_def)

lemma strptime_T:
  assumes "is_digit c0" "is_digit c1" "is_digit c2" "is_digit c3"
    "is_digit c5" "is_digit c6" "is_digit c8" "is_digit c9"
    "is_digit h1" "is_digit h2" "is_digit m1" "is_digit m2" "is_digit s1" "is_digit s2"
  shows "datetime_strptime (c0 # c1 # c2 # c3 # CHR ''-'' # c5 # c6 # CHR ''-'' # c8 # c9 #
           CHR ''T'' # h1 # h2 # CHR '':'' # m1 # m2 # CHR '':'' # s1 # s2 # r) fmt_T =
    (if r = [] \<and> check_date_fields (int_of_digits [c0, c1, c2, c3]) (int_of_digits [c5, c6])
          (int_of_digits [c8, c9]) \<and>
        check_time_fields (int_of_digits [h1, h2]) (int_of_digits [m1, m2]) (int_of_digits [s1, s2])
     then Inr (int_of_digits [c0, c1, c2, c3], int_of_digits [c5, c6], int_of_digits [c8, c9],
               int_of_digits [h1, h2], int_of_digits [m1, m2], int_of_digits [s1, s2], 0)
     else Inl ValueError)"
  using check_date_fields_regex [of "int_of_digits [c0, c1, c2, c3]" "int_of_digits [c5, c6]"
      "int_of_digits [c8, c9]"]
  unfolding datetime_strptime_def fmt_match_T [OF assms]
  by (auto simp: Let_def check_time_fields_def)

lemma strptime_space:
  assumes "is_digit c0" "is_digit c1" "is_digit c2" "is_digit c3"
    "is_digit c5" "is_digit c6" "is_digit c8" "is_digit c9"
    "is_digit h1" "is_digit h2" "is_digit m1" "is_digit m2" "is_digit s1" "is_digit s2"
  shows "datetime_strptime (c0 # c1 # c2 # c3 # CHR ''-'' # c5 # c6 # CHR ''-'' # c8 # c9 #
           CHR '' '' # h1 # h2 # CHR '':'' # m1 # m2 # CHR '':'' # s1 # s2 # r) fmt_space =
    (if r = [] \<and> check_date_fields (int_of_digits [c0, c1, c2, c3]) (int_of_digits [c5, c6])
          (int_of_digits [c8, c9]) \<and>
        check_time_fields (int_of_digits [h1, h2]) (int_of_digits [m1, m2]) (int_of_digits [s1, s2])
     then Inr (int_of_digits [c0, c1, c2, c3], int_of_digits [c5, c6], int_of_digits [c8, c9],
               int_of_digits [h1, h2], int_of_digits [m1, m2], int_of_digits [s1, s2], 0)
     else Inl ValueError)"
  using check_date_fields_regex [of "int_of_digits [c0, c1, c2, c3]" "int_of_digits [c5, c6]"
      "int_of_digits [c8, c9]"]
  unfolding datetime_strptime_def fmt_match_space [OF assms]
  by (auto simp: Let_def check_time_fields_def)

section \<open>What \<open>get_dates\<close> returns\<close>

lemma get_dates_unmatched:
  assumes "\<not> re_match pattern_date s" "\<not> re_match pattern_T s" "\<not> re_match pattern_space s"
  shows "get_dates today s = Inr Map.empty"
  using assms by (simp add: get_dates_def)

lemma get_dates_date:
  assumes "re_match pattern_date s"
  shows "get_dates today s =
    (if length s = 10 \<and> valid_date (date_fields s)
     then Inr (Map.empty(''now_date'' \<mapsto> Date (date_of today),
                         ''check_date'' \<mapsto> Date (date_fields s)))
     else Inl ValueError)"
proof -
  from assms obtain r where m: "atoms_match date_atoms s = Some r" and r: "r = [] \<or> r = [CHR 0x0A]"
    by (auto simp: re_match_date_iff)
  from patterns_exclusive assms have no: "\<not> re_match pattern_T s" "\<not> re_match pattern_space s"
    by blast+
  from m obtain c0 c1 c2 c3 c5 c6 c8 c9 where
    s: "s = c0 # c1 # c2 # c3 # CHR ''-'' # c5 # c6 # CHR ''-'' # c8 # c9 # r" and
    d: "is_digit c0" "is_digit c1" "is_digit c2" "is_digit c3"
    "is_digit c5" "is_digit c6" "is_digit c8" "is_digit c9"
    by (erule date_atoms_shape)
  let ?Y = "int_of_digits [c0, c1, c2, c3]" and ?m = "int_of_digits [c5, c6]"
    and ?d = "int_of_digits [c8, c9]"
  have f: "date_fields s = (?Y, ?m, ?d)"
    unfolding s date_fields_def by simp
  have l: "length s = 10 \<longleftrightarrow> r = []" unfolding s by simp
  have p: "datetime_strptime s fmt_date =
      (if r = [] \<and> check_date_fields ?Y ?m ?d then Inr (?Y, ?m, ?d, 0, 0, 0, 0)
       else Inl ValueError)"
    unfolding s by (rule strptime_date [OF d])
  show ?thesis
    unfolding get_dates_def f l p
    using assms no by simp
qed

lemma get_dates_T:
  assumes "re_match pattern_T s"
  shows "get_dates today s =
    (if length s = 19 \<and> valid_date (date_fields s) \<and> valid_time (time_fields s)
     then Inr (Map.empty(''now_date'' \<mapsto> DateTime (replace_microsecond today 0),
                         ''check_date'' \<mapsto> DateTime (timestamp (date_fields s) (time_fields s))))
     else Inl ValueError)"
proof -
  from assms obtain t r where m: "atoms_match date_atoms s = Some (CHR ''T'' # t)"
    and mt: "atoms_match time_atoms t = Some r" and r: "r = [] \<or> r = [CHR 0x0A]"
    by (auto simp: re_match_T_iff)
  from patterns_exclusive assms have no: "\<not> re_match pattern_date s" "\<not> re_match pattern_space s"
    by blast+
  from m obtain c0 c1 c2 c3 c5 c6 c8 c9 where
    s: "s = c0 # c1 # c2 # c3 # CHR ''-'' # c5 # c6 # CHR ''-'' # c8 # c9 # CHR ''T'' # t" and
    d: "is_digit c0" "is_digit c1" "is_digit c2" "is_digit c3"
    "is_digit c5" "is_digit c6" "is_digit c8" "is_digit c9"
    by (erule date_atoms_shape)
  from mt obtain h1 h2 m1 m2 s1 s2 where
    t: "t = h1 # h2 # CHR '':'' # m1 # m2 # CHR '':'' # s1 # s2 # r" and
    e: "is_digit h1" "is_digit h2" "is_digit m1" "is_digit m2" "is_digit s1" "is_digit s2"
    by (erule time_atoms_shape)
  let ?Y = "int_of_digits [c0, c1, c2, c3]" and ?m = "int_of_digits [c5, c6]"
    and ?d = "int_of_digits [c8, c9]" and ?H = "int_of_digits [h1, h2]"
    and ?M = "int_of_digits [m1, m2]" and ?S = "int_of_digits [s1, s2]"
  have f: "date_fields s = (?Y, ?m, ?d)"
    unfolding s date_fields_def by simp
  have g: "time_fields s = (?H, ?M, ?S)"
    unfolding s t time_fields_def by simp
  have l: "length s = 19 \<longleftrightarrow> r = []" unfolding s t by simp
  have p: "datetime_strptime s fmt_T =
      (if r = [] \<and> check_date_fields ?Y ?m ?d \<and> check_time_fields ?H ?M ?S
       then Inr (?Y, ?m, ?d, ?H, ?M, ?S, 0)
       else Inl ValueError)"
    unfolding s t by (rule strptime_T [OF d e])
  show ?thesis
    unfolding get_dates_def f g l p
    using assms no by simp
qed

lemma get_dates_space:
  assumes "re_match pattern_space s"
  shows "get_dates today s =
    (if length s = 19 \<and> valid_date (date_fields s) \<and> valid_time (time_fields s)
     then Inr (Map.empty(''now_date'' \<mapsto> DateTime (replace_microsecond today 0),
                         ''check_date'' \<mapsto> DateTime (timestamp (date_fields s) (time_fields s))))
     else Inl ValueError)"
proof -
  from assms obtain t r where m: "atoms_match date_atoms s = Some (CHR '' '' # t)"
    and mt: "atoms_match time_atoms t = Some r" and r: "r = [] \<or> r = [CHR 0x0A]"
    by (auto simp: re_match_space_iff)
  from patterns_exclusive assms have no: "\<not> re_match pattern_date s" "\<not> re_match pattern_T s"
    by blast+
  from m obtain c0 c1 c2 c3 c5 c6 c8 c9 where
    s: "s = c0 # c1 # c2 # c3 # CHR ''-'' # c5 # c6 # CHR ''-'' # c8 # c9 # CHR '' '' # t" and
    d: "is_digit c0" "is_digit c1" "is_digit c2" "is_digit c3"
    "is_digit c5" "is_digit c6" "is_digit c8" "is_digit c9"
    by (erule date_atoms_shape)
  from mt obtain h1 h2 m1 m2 s1 s2 where
    t: "t = h1 # h2 # CHR '':'' # m1 # m2 # CHR '':'' # s1 # s2 # r" and
    e: "is_digit h1" "is_digit h2" "is_digit m1" "is_digit m2" "is_digit s1" "is_digit s2"
    by (erule time_atoms_shape)
  let ?Y = "int_of_digits [c0, c1, c2, c3]" and ?m = "int_of_digits [c5, c6]"
    and ?d = "int_of_digits [c8, c9]" and ?H = "int_of_digits [h1, h2]"
    and ?M = "int_of_digits [m1, m2]" and ?S = "int_of_digits [s1, s2]"
  have f: "date_fields s = (?Y, ?m, ?d)"
    unfolding s date_fields_def by simp
  have g: "time_fields s = (?H, ?M, ?S)"
    unfolding s t time_fields_def by simp
  have l: "length s = 19 \<longleftrightarrow> r = []" unfolding s t by simp
  have p: "datetime_strptime s fmt_space =
      (if r = [] \<and> check_date_fields ?Y ?m ?d \<and> check_time_fields ?H ?M ?S
       then Inr (?Y, ?m, ?d, ?H, ?M, ?S, 0)
       else Inl ValueError)"
    unfolding s t by (rule strptime_space [OF d e])
  show ?thesis
    unfolding get_dates_def f g l p
    using assms no by simp
qed

lemma get_dates_date_only:
  "date_only_string s \<Longrightarrow>
   get_dates today s = Inr (Map.empty(''now_date'' \<mapsto> Date (date_of today),
                                       ''check_date'' \<mapsto> Date (date_fields s)))"
  by (simp add: date_only_string_def get_dates_date)

lemma get_dates_timestamp:
  "timestamp_string s \<Longrightarrow>
   get_dates today s = Inr (Map.empty(''now_date'' \<mapsto> DateTime (replace_microsecond today 0),
      ''check_date'' \<mapsto> DateTime (timestamp (date_fields s) (time_fields s))))"
  by (auto simp add: timestamp_string_def get_dates_T get_dates_space)

lemma microsecond_replace [simp]: "microsecond (DateTime (replace_microsecond today 0)) = 0"
  by (cases today) simp

lemma microsecond_timestamp [simp]: "microsecond (DateTime (timestamp d t)) = 0"
  by (cases d; cases t) simp

lemma get_dates_cases:
  assumes "get_dates today s = Inr dates"
  shows "dates = Map.empty \<or>
    dates = Map.empty(''now_date'' \<mapsto> Date (date_of today), ''check_date'' \<mapsto> Date (date_fields s)) \<or>
    dates = Map.empty(''now_date'' \<mapsto> DateTime (replace_microsecond today 0),
      ''check_date'' \<mapsto> DateTime (timestamp (date_fields s) (time_fields s)))"
proof -
  consider (d) "re_match pattern_date s" | (t) "re_match pattern_T s" | (sp) "re_match pattern_space s"
    | (none) "\<not> re_match pattern_date s" "\<not> re_match pattern_T s" "\<not> re_match pattern_space s"
    by blast
  then show ?thesis
  proof cases
    case d
    from assms show ?thesis unfolding get_dates_date [OF d] by (simp split: if_splits)
  next
    case t
    from assms show ?thesis unfolding get_dates_T [OF t] by (simp split: if_splits)
  next
    case sp
    from assms show ?thesis unfolding get_dates_space [OF sp] by (simp split: if_splits)
  next
    case none
    from assms show ?thesis unfolding get_dates_unmatched [OF none] by simp
  qed
qed

lemma valid_resolves:
  assumes "valid_datestring s"
  obtains n c where
    "get_dates today s = Inr (Map.empty(''now_date'' \<mapsto> n, ''check_date'' \<mapsto> c))"
    "same_variant n c"
  using assms get_dates_date_only [of s today] get_dates_timestamp [of s today]
  unfolding valid_datestring_def by (metis same_variant.simps(1,2))

lemma is_due_resolved:
  assumes "get_dates today s = Inr (Map.empty(''now_date'' \<mapsto> n, ''check_date'' \<mapsto> c))"
  shows "is_due today s (Some op) =
     (if op = [] then operator_eq n c
      else case ops op of None \<Rightarrow> Inl (KeyError op) | Some f \<Rightarrow> f n c)"
  using assms by (simp add: is_due_def getitem_def split: option.splits)

lemma predicates_unmatched:
  assumes "get_dates today s = Inr Map.empty"
  shows "is_past today s = Inl (KeyError ''check_date'')"
    "is_today_or_past today s = Inl (KeyError ''check_date'')"
    "is_future today s = Inl (KeyError ''check_date'')"
    "is_today_or_future today s = Inl (KeyError ''check_date'')"
    "is_today today s = Inl (KeyError ''check_date'')"
    "is_due today s op = Inl (KeyError ''check_date'')"
  using assms
  by (simp_all add: is_past_def is_today_or_past_def is_future_def is_today_or_future_def
      is_today_def is_due_def getitem_def)

lemma predicates_resolved:
  assumes "get_dates today s = Inr (Map.empty(''now_date'' \<mapsto> n, ''check_date'' \<mapsto> c))"
  shows "is_past today s = operator_lt c n"
    "is_today_or_past today s = operator_le c n"
    "is_future today s = operator_gt c n"
    "is_today_or_future today s = operator_ge c n"
    "is_today today s = operator_eq c n"
  using assms
  by (simp_all add: is_past_def is_today_or_past_def is_future_def is_today_or_future_def
      is_today_def getitem_def)

lemma get_dates_error: "get_dates today s = Inl e \<Longrightarrow> e = ValueError"
proof -
  assume a: "get_dates today s = Inl e"
  consider (d) "re_match pattern_date s" | (t) "re_match pattern_T s" | (sp) "re_match pattern_space s"
    | (none) "\<not> re_match pattern_date s" "\<not> re_match pattern_T s" "\<not> re_match pattern_space s"
    by blast
  then show ?thesis
  proof cases
    case d
    from a show ?thesis unfolding get_dates_date [OF d] by (simp split: if_splits)
  next
    case t
    from a show ?thesis unfolding get_dates_T [OF t] by (simp split: if_splits)
  next
    case sp
    from a show ?thesis unfolding get_dates_space [OF sp] by (simp split: if_splits)
  next
    case none
    from a show ?thesis unfolding get_dates_unmatched [OF none] by simp
  qed
qed

lemma is_due_default:
  "is_due today d None = is_due today d (Some ''=='')"
  "is_due today d (Some []) = is_due today d (Some ''=='')"
  by (simp_all add: is_due_def)

lemma is_due_eq_is_today: "is_due today d (Some ''=='') = is_today today d"
proof (cases "get_dates today d")
  case (Inl e)
  then show ?thesis by (simp add: is_due_def is_today_def)
next
  case (Inr dates)
  then show ?thesis
    by (cases "dates ''check_date''"; cases "dates ''now_date''")
      (simp_all add: is_due_def is_today_def getitem_def operator_eq_sym)
qed

lemma is_today_not_operator_error: "is_today today d \<noteq> Inl (KeyError [])"
proof (cases "get_dates today d")
  case (Inl e)
  with get_dates_error [OF Inl] show ?thesis by (simp add: is_today_def)
next
  case (Inr dates)
  then show ?thesis
    using operator_eq_no_error
    by (cases "dates ''check_date''"; cases "dates ''now_date''")
      (simp_all add: is_today_def getitem_def)
qed

lemma sample_date_resolution:
  "get_dates sample_today ''2030-06-14'' =
     Inr (Map.empty(''now_date'' \<mapsto> Date (2030, 6, 15), ''check_date'' \<mapsto> Date (2030, 6, 14)))"
  by (simp add: eval_defs)

lemma sample_timestamp_resolution:
  "get_dates sample_today ''2030-06-15 12:30:45'' =
     Inr (Map.empty(''now_date'' \<mapsto> DateTime (2030, 6, 15, 12, 30, 45, 0),
                    ''check_date'' \<mapsto> DateTime (2030, 6, 15, 12, 30, 45, 0)))"
  by (simp add: eval_defs)

lemma sample_valid:
  "date_only_string ''2030-06-14''" "date_only_string ''2030-06-15''"
  "timestamp_string ''2030-06-15 12:30:45''" "timestamp_string ''2030-06-16T00:00:00''"
  by (simp_all add: eval_defs)

section \<open>The claims\<close>

text \<open>
  C1. For every date string \<open>d\<close>, at a fixed clock instant, \<open>is_due\<close> applies its operator as
  operator(now, check): whenever the string resolves to a pair, the result of \<open>is_due\<close> with
  a recognised operator is that operator applied to \<open>now_date\<close> first and \<open>check_date\<close>
  second. Hence \<open>is_due(d, "==")\<close> equals \<open>is_today(d)\<close>, \<open>is_due(d, ">")\<close> equals
  \<open>is_past(d)\<close>, \<open>is_due(d, "<")\<close> equals \<open>is_future(d)\<close>, \<open>is_due(d, ">=")\<close> equals
  \<open>is_today_or_past(d)\<close>, \<open>is_due(d, "<=")\<close> equals \<open>is_today_or_future(d)\<close>, and
  \<open>is_due(d, "!=")\<close> equals the negation of \<open>is_today(d)\<close>. The equalities hold for every
  string: on a string that does not resolve both sides raise the same exception.
\<close>

theorem is_due_operator_now_check:
  "(\<forall>dates now_date check_date op f.
      get_dates today d = Inr dates \<and> dates ''now_date'' = Some now_date \<and>
      dates ''check_date'' = Some check_date \<and> op \<noteq> [] \<and> ops op = Some f
      \<longrightarrow> is_due today d (Some op) = f now_date check_date) \<and>
   is_due today d (Some ''=='') = is_today today d \<and>
   is_due today d (Some ''>'') = is_past today d \<and>
   is_due today d (Some ''<'') = is_future today d \<and>
   is_due today d (Some ''>='') = is_today_or_past today d \<and>
   is_due today d (Some ''<='') = is_today_or_future today d \<and>
   is_due today d (Some ''!='') = bind_result (is_today today d) (\<lambda>b. Inr (\<not> b))"
proof (cases "get_dates today d")
  case (Inl e)
  then show ?thesis
    by (simp add: is_due_def is_today_def is_past_def is_future_def is_today_or_past_def
        is_today_or_future_def)
next
  case (Inr dates)
  show ?thesis
  proof (cases "dates ''check_date''")
    case None
    with Inr show ?thesis
      by (simp add: is_due_def is_today_def is_past_def is_future_def is_today_or_past_def
          is_today_or_future_def getitem_def)
  next
    case c: (Some check_date)
    show ?thesis
    proof (cases "dates ''now_date''")
      case None
      with Inr c show ?thesis
        by (simp add: is_due_def is_today_def is_past_def is_future_def is_today_or_past_def
            is_today_or_future_def getitem_def)
    next
      case n: (Some now_date)
      have g: "getitem dates ''check_date'' = Inr check_date"
        "getitem dates ''now_date'' = Inr now_date"
        using c n by (simp_all add: getitem_def)
      have 1: "\<And>op f. op \<noteq> [] \<Longrightarrow> ops op = Some f \<Longrightarrow>
          is_due today d (Some op) = f now_date check_date"
        using Inr g by (simp add: is_due_def getitem_def)
      have 2: "is_due today d (Some ''=='') = is_today today d"
        using Inr g by (simp add: is_due_def is_today_def operator_eq_sym)
      have 3: "is_due today d (Some ''>'') = is_past today d"
        using Inr g by (simp add: is_due_def is_past_def operator_gt_lt)
      have 4: "is_due today d (Some ''<'') = is_future today d"
        using Inr g by (simp add: is_due_def is_future_def operator_gt_lt)
      have 5: "is_due today d (Some ''>='') = is_today_or_past today d"
        using Inr g by (simp add: is_due_def is_today_or_past_def operator_ge_le)
      have 6: "is_due today d (Some ''<='') = is_today_or_future today d"
        using Inr g by (simp add: is_due_def is_today_or_future_def operator_ge_le)
      have 7: "is_due today d (Some ''!='') = bind_result (is_today today d) (\<lambda>b. Inr (\<not> b))"
        using Inr g by (simp add: is_due_def is_today_def operator_ne_eq)
      from 1 2 3 4 5 6 7 Inr c n show ?thesis by auto
    qed
  qed
qed

text \<open>
  Witness for C1: on 15 June 2030 the string \<open>2030-06-14\<close> resolves, \<open>is_due\<close> with \<open>></\<close>
  is \<open>now > check\<close>, and it agrees with \<open>is_past\<close>, which is true.
\<close>

theorem is_due_operator_now_check_witness:
  "is_due sample_today ''2030-06-14'' (Some ''>'') =
     operator_gt (Date (2030, 6, 15)) (Date (2030, 6, 14)) \<and>
   is_due sample_today ''2030-06-14'' (Some ''>'') = is_past sample_today ''2030-06-14'' \<and>
   is_past sample_today ''2030-06-14'' = Inr True"
proof -
  note t = is_due_operator_now_check [of sample_today "''2030-06-14''"]
  from t have a: "get_dates sample_today ''2030-06-14'' =
        Inr (Map.empty(''now_date'' \<mapsto> Date (2030, 6, 15), ''check_date'' \<mapsto> Date (2030, 6, 14))) \<and>
      (Map.empty(''now_date'' \<mapsto> Date (2030, 6, 15), ''check_date'' \<mapsto> Date (2030, 6, 14)))
        ''now_date'' = Some (Date (2030, 6, 15)) \<and>
      (Map.empty(''now_date'' \<mapsto> Date (2030, 6, 15), ''check_date'' \<mapsto> Date (2030, 6, 14)))
        ''check_date'' = Some (Date (2030, 6, 14)) \<and>
      ''>'' \<noteq> [] \<and> ops ''>'' = Some operator_gt
      \<longrightarrow> is_due sample_today ''2030-06-14'' (Some ''>'') =
          operator_gt (Date (2030, 6, 15)) (Date (2030, 6, 14))"
    by blast
  from t have b: "is_due sample_today ''2030-06-14'' (Some ''>'') = is_past sample_today ''2030-06-14''"
    by blast
  have c: "is_past sample_today ''2030-06-14'' = Inr True"
    by (simp add: predicates_resolved [OF sample_date_resolution])
  from a b c sample_date_resolution show ?thesis by simp
qed

text \<open>
  C2, as the code has it. For every input string that matches none of the three patterns,
  each of the six predicates fails instead of returning a boolean: the resolution result is
  the empty dictionary, and the lookup of \<open>check_date\<close> in it raises the missing-key error
  \<open>KeyError('check_date')\<close>, whatever the operator given to \<open>is_due\<close>. The code has no
  dedicated invalid-format error.
\<close>

theorem unmatched_input_raises_KeyError:
  assumes "\<not> re_match pattern_date s" "\<not> re_match pattern_T s" "\<not> re_match pattern_space s"
  shows "is_past today s = Inl (KeyError ''check_date'') \<and>
         is_today_or_past today s = Inl (KeyError ''check_date'') \<and>
         is_future today s = Inl (KeyError ''check_date'') \<and>
         is_today_or_future today s = Inl (KeyError ''check_date'') \<and>
         is_today today s = Inl (KeyError ''check_date'') \<and>
         is_due today s op = Inl (KeyError ''check_date'')"
  using predicates_unmatched [OF get_dates_unmatched [OF assms]] by simp

text \<open>Witness for C2: the string \<open>tomorrow\<close> matches no pattern.\<close>

theorem unmatched_input_raises_KeyError_witness:
  "\<not> re_match pattern_date ''tomorrow'' \<and> \<not> re_match pattern_T ''tomorrow'' \<and>
   \<not> re_match pattern_space ''tomorrow'' \<and>
   is_past sample_today ''tomorrow'' = Inl (KeyError ''check_date'') \<and>
   is_due sample_today ''tomorrow'' (Some ''~='') = Inl (KeyError ''check_date'')"
proof -
  have n: "\<not> re_match pattern_date ''tomorrow''" "\<not> re_match pattern_T ''tomorrow''"
    "\<not> re_match pattern_space ''tomorrow''"
    by (simp_all add: eval_defs)
  from n unmatched_input_raises_KeyError [OF n, of sample_today "Some ''~=''"]
  show ?thesis by simp
qed

text \<open>
  Counterexample to C2 as stated: on the malformed input \<open>15/06/2030\<close> every predicate
  raises the missing-key error of the dictionary lookup, \<open>KeyError('check_date')\<close>, the very
  error the claim excludes.
\<close>

theorem malformed_input_missing_key:
  "is_past sample_today ''15/06/2030'' = Inl (KeyError ''check_date'') \<and>
   is_today_or_past sample_today ''15/06/2030'' = Inl (KeyError ''check_date'') \<and>
   is_future sample_today ''15/06/2030'' = Inl (KeyError ''check_date'') \<and>
   is_today_or_future sample_today ''15/06/2030'' = Inl (KeyError ''check_date'') \<and>
   is_today sample_today ''15/06/2030'' = Inl (KeyError ''check_date'') \<and>
   is_due sample_today ''15/06/2030'' None = Inl (KeyError ''check_date'')"
proof -
  have "get_dates sample_today ''15/06/2030'' = Inr Map.empty"
    by (simp add: eval_defs)
  from predicates_unmatched [OF this] show ?thesis by simp
qed

text \<open>
  C3, as the code has it. For every valid date string \<open>d\<close> and every non-empty operator
  string that is not one of the six symbols \<open>==\<close>, \<open>></\<close>, \<open>>=\<close>, \<open><=\<close>, \<open><\<close>, \<open>!=\<close>, the call
  \<open>is_due(d, op)\<close> fails with the unknown-operator error, the \<open>KeyError\<close> of the operator
  table naming that operator; for each of the six symbols it returns a boolean.
\<close>

theorem is_due_unknown_operator:
  assumes "valid_datestring d"
  shows "(op \<noteq> [] \<and> op \<notin> set recognized_operators \<longrightarrow>
            is_due today d (Some op) = Inl (KeyError op)) \<and>
         (op \<in> set recognized_operators \<longrightarrow> (\<exists>b. is_due today d (Some op) = Inr b))"
proof -
  from assms obtain n c where
    g: "get_dates today d = Inr (Map.empty(''now_date'' \<mapsto> n, ''check_date'' \<mapsto> c))"
    and v: "same_variant n c"
    by (erule valid_resolves)
  have 1: "is_due today d (Some op) = Inl (KeyError op)" if "op \<noteq> []" "op \<notin> set recognized_operators"
  proof -
    from that(2) have "ops op = None" using dom_ops by blast
    with that(1) show ?thesis by (simp add: is_due_resolved [OF g])
  qed
  have 2: "\<exists>b. is_due today d (Some op) = Inr b" if "op \<in> set recognized_operators"
    using that operator_total [OF v]
    by (auto simp: recognized_operators_def is_due_resolved [OF g])
  from 1 2 show ?thesis by blast
qed

text \<open>
  Witness for C3: with the valid string \<open>2030-06-14\<close>, the operator \<open>~=\<close> raises
  \<open>KeyError('~=')\<close> and the operator \<open>>=\<close> returns a boolean.
\<close>

theorem is_due_unknown_operator_witness:
  "valid_datestring ''2030-06-14'' \<and> ''~='' \<noteq> [] \<and> ''~='' \<notin> set recognized_operators \<and>
   is_due sample_today ''2030-06-14'' (Some ''~='') = Inl (KeyError ''~='') \<and>
   ''>='' \<in> set recognized_operators \<and>
   (\<exists>b. is_due sample_today ''2030-06-14'' (Some ''>='') = Inr b)"
proof -
  have v: "valid_datestring ''2030-06-14''"
    using sample_valid(1) by (simp add: valid_datestring_def)
  have o: "''~='' \<noteq> []" "''~='' \<notin> set recognized_operators" "''>='' \<in> set recognized_operators"
    by (simp_all add: recognized_operators_def)
  from v o is_due_unknown_operator [OF v, of "''~=''" sample_today]
    is_due_unknown_operator [OF v, of "''>=''" sample_today]
  show ?thesis by blast
qed

text \<open>
  Counterexample to C3 as stated: the empty string is not one of the six symbols, yet
  \<open>is_due\<close> with it on a valid date string returns a boolean.
\<close>

theorem empty_operator_accepted:
  "[] \<notin> set recognized_operators \<and> valid_datestring ''2030-06-14'' \<and>
   is_due sample_today ''2030-06-14'' (Some []) = Inr False"
proof -
  have "is_due sample_today ''2030-06-14'' (Some []) = Inr False"
    by (simp add: is_due_resolved [OF sample_date_resolution])
  moreover have "valid_datestring ''2030-06-14''"
    using sample_valid(1) by (simp add: valid_datestring_def)
  ultimately show ?thesis by (simp add: recognized_operators_def)
qed

text \<open>
  C4, as the code has it. For every ten-character string of the form \<open>YYYY-MM-DD\<close> that
  names a real calendar date, resolution yields \<open>now\<close> equal to the current local calendar
  date, with no time component, and \<open>check\<close> equal to the calendar date read from the string.
  For every nineteen-character string of one of the two timestamp forms that names a real
  date and time of day, resolution yields \<open>now\<close> equal to the current local date and time
  with the microseconds set to zero and \<open>check\<close> equal to the date and time read from the
  string. A string of one of these forms whose numbers are not a real date or time of day
  does not resolve: \<open>strptime\<close> raises \<open>ValueError\<close>.
\<close>

theorem get_dates_resolution:
  "(date_only_string s \<longrightarrow>
      get_dates today s = Inr (Map.empty(''now_date'' \<mapsto> Date (date_of today),
                                          ''check_date'' \<mapsto> Date (date_fields s)))) \<and>
   (timestamp_string s \<longrightarrow>
      get_dates today s = Inr (Map.empty(''now_date'' \<mapsto> DateTime (replace_microsecond today 0),
         ''check_date'' \<mapsto> DateTime (timestamp (date_fields s) (time_fields s)))) \<and>
      microsecond (DateTime (replace_microsecond today 0)) = 0) \<and>
   (length s = 10 \<and> re_match pattern_date s \<and> \<not> valid_date (date_fields s) \<longrightarrow>
      get_dates today s = Inl ValueError) \<and>
   (length s = 19 \<and> (re_match pattern_T s \<or> re_match pattern_space s) \<and>
      \<not> (valid_date (date_fields s) \<and> valid_time (time_fields s)) \<longrightarrow>
      get_dates today s = Inl ValueError)"
  using get_dates_date_only [of s today] get_dates_timestamp [of s today]
    get_dates_date [of s today] get_dates_T [of s today] get_dates_space [of s today]
  by auto

text \<open>
  Witness for C4: at 12:30:45.123456 on 15 June 2030 a date and a timestamp resolve, and a
  string with month 13 and one with hour 24 raise \<open>ValueError\<close>.
\<close>

theorem get_dates_resolution_witness:
  "date_only_string ''2030-06-14'' \<and>
   get_dates sample_today ''2030-06-14'' =
     Inr (Map.empty(''now_date'' \<mapsto> Date (2030, 6, 15), ''check_date'' \<mapsto> Date (2030, 6, 14))) \<and>
   timestamp_string ''2030-06-16T00:00:00'' \<and>
   get_dates sample_today ''2030-06-16T00:00:00'' =
     Inr (Map.empty(''now_date'' \<mapsto> DateTime (2030, 6, 15, 12, 30, 45, 0),
                    ''check_date'' \<mapsto> DateTime (2030, 6, 16, 0, 0, 0, 0))) \<and>
   length ''2030-13-01'' = 10 \<and> re_match pattern_date ''2030-13-01'' \<and>
   \<not> valid_date (date_fields ''2030-13-01'') \<and>
   get_dates sample_today ''2030-13-01'' = Inl ValueError \<and>
   length ''2030-06-15 24:00:00'' = 19 \<and> re_match pattern_space ''2030-06-15 24:00:00'' \<and>
   \<not> valid_time (time_fields ''2030-06-15 24:00:00'') \<and>
   get_dates sample_today ''2030-06-15 24:00:00'' = Inl ValueError"
proof -
  have f: "date_of sample_today = (2030, 6, 15)"
    "replace_microsecond sample_today 0 = (2030, 6, 15, 12, 30, 45, 0)"
    "date_fields ''2030-06-14'' = (2030, 6, 14)"
    "timestamp (date_fields ''2030-06-16T00:00:00'') (time_fields ''2030-06-16T00:00:00'') =
       (2030, 6, 16, 0, 0, 0, 0)"
    by (simp_all add: eval_defs)
  have b: "length ''2030-13-01'' = 10" "re_match pattern_date ''2030-13-01''"
    "\<not> valid_date (date_fields ''2030-13-01'')"
    by (simp_all add: eval_defs)
  from get_dates_resolution [of "''2030-06-14''" sample_today] sample_valid(1)
  have 1: "get_dates sample_today ''2030-06-14'' =
     Inr (Map.empty(''now_date'' \<mapsto> Date (2030, 6, 15), ''check_date'' \<mapsto> Date (2030, 6, 14)))"
    by (simp add: f)
  from get_dates_resolution [of "''2030-06-16T00:00:00''" sample_today] sample_valid(4)
  have 2: "get_dates sample_today ''2030-06-16T00:00:00'' =
     Inr (Map.empty(''now_date'' \<mapsto> DateTime (2030, 6, 15, 12, 30, 45, 0),
                    ''check_date'' \<mapsto> DateTime (2030, 6, 16, 0, 0, 0, 0)))"
    by (simp add: f)
  from get_dates_resolution [of "''2030-13-01''" sample_today] b
  have 3: "get_dates sample_today ''2030-13-01'' = Inl ValueError"
    by blast
  have c: "length ''2030-06-15 24:00:00'' = 19" "re_match pattern_space ''2030-06-15 24:00:00''"
    "\<not> valid_time (time_fields ''2030-06-15 24:00:00'')"
    by (simp_all add: eval_defs)
  from get_dates_resolution [of "''2030-06-15 24:00:00''" sample_today] c
  have 4: "get_dates sample_today ''2030-06-15 24:00:00'' = Inl ValueError"
    by blast
  from 1 2 3 4 b c sample_valid(1,4) show ?thesis by blast
qed

text \<open>
  Counterexample to C4 as stated: \<open>2030-13-01\<close> matches the date-only pattern, and resolution
  yields no pair for it but raises \<open>ValueError\<close>.
\<close>

theorem month_13_not_resolved:
  "re_match pattern_date ''2030-13-01'' \<and>
   get_dates sample_today ''2030-13-01'' = Inl ValueError"
  by (simp add: eval_defs)

text \<open>
  C5. For every valid date-only string \<open>D\<close>, at a fixed clock instant whose date is today:
  \<open>is_past(D)\<close> holds exactly when \<open>D < today\<close>, \<open>is_today(D)\<close> exactly when \<open>D = today\<close>,
  \<open>is_future(D)\<close> exactly when \<open>D > today\<close>, and exactly one of the three returns true.
\<close>

theorem date_only_trichotomy:
  assumes "date_only_string D"
  shows "is_past today D = Inr (date_fields D < date_of today) \<and>
         is_today today D = Inr (date_fields D = date_of today) \<and>
         is_future today D = Inr (date_fields D > date_of today) \<and>
         length (filter (\<lambda>r. r = Inr True)
           [is_past today D, is_today today D, is_future today D]) = 1"
proof -
  note r = predicates_resolved [OF get_dates_date_only [OF assms, of today]]
  have "date_fields D < date_of today \<or> date_fields D = date_of today \<or>
        date_of today < date_fields D"
    by (rule less_linear)
  then show ?thesis unfolding r by auto
qed

text \<open>Witness for C5: on 15 June 2030 the date \<open>2030-06-14\<close> is past, not today, not future.\<close>

theorem date_only_trichotomy_witness:
  "date_only_string ''2030-06-14'' \<and>
   is_past sample_today ''2030-06-14'' = Inr True \<and>
   is_today sample_today ''2030-06-14'' = Inr False \<and>
   is_future sample_today ''2030-06-14'' = Inr False"
proof -
  have f: "date_of sample_today = (2030, 6, 15)" "date_fields ''2030-06-14'' = (2030, 6, 14)"
    by (simp_all add: eval_defs)
  from date_only_trichotomy [OF sample_valid(1), of sample_today] sample_valid(1)
  show ?thesis by (simp add: f)
qed

text \<open>
  C6. For every date string \<open>D\<close>, at a fixed clock instant, \<open>is_today_or_past(D)\<close> equals
  \<open>is_past(D) or is_today(D)\<close>, and \<open>is_today_or_future(D)\<close> equals
  \<open>is_future(D) or is_today(D)\<close>; on a string that does not resolve both sides raise the
  same exception.
\<close>

theorem inclusive_predicates_are_disjunctions:
  "is_today_or_past today D = py_or (is_past today D) (is_today today D) \<and>
   is_today_or_future today D = py_or (is_future today D) (is_today today D)"
proof (cases "get_dates today D")
  case (Inl e)
  then show ?thesis
    by (simp add: is_past_def is_today_or_past_def is_future_def is_today_or_future_def
        is_today_def py_or_def)
next
  case (Inr dates)
  show ?thesis
  proof (cases "dates ''check_date''")
    case None
    with Inr show ?thesis
      by (simp add: is_past_def is_today_or_past_def is_future_def is_today_or_future_def
          is_today_def py_or_def getitem_def)
  next
    case c: (Some c)
    show ?thesis
    proof (cases "dates ''now_date''")
      case None
      with Inr c show ?thesis
        by (simp add: is_past_def is_today_or_past_def is_future_def is_today_or_future_def
            is_today_def py_or_def getitem_def)
    next
      case n: (Some n)
      have le: "operator_le c n = py_or (operator_lt c n) (operator_eq c n)"
        by (cases c; cases n) (auto simp: py_or_def)
      have ge: "operator_ge c n = py_or (operator_gt c n) (operator_eq c n)"
        by (cases c; cases n) (auto simp: py_or_def)
      from Inr c n le ge show ?thesis
        by (simp add: is_past_def is_today_or_past_def is_future_def is_today_or_future_def
            is_today_def getitem_def)
    qed
  qed
qed

text \<open>
  Witness for C6: at 12:30:45 on 15 June 2030 the timestamp \<open>2030-06-15 12:30:45\<close> is today
  and neither past nor future, so both inclusive predicates are true.
\<close>

theorem inclusive_predicates_are_disjunctions_witness:
  "is_today_or_past sample_today ''2030-06-15 12:30:45'' = Inr True \<and>
   is_past sample_today ''2030-06-15 12:30:45'' = Inr False \<and>
   is_future sample_today ''2030-06-15 12:30:45'' = Inr False \<and>
   is_today sample_today ''2030-06-15 12:30:45'' = Inr True \<and>
   is_today_or_future sample_today ''2030-06-15 12:30:45'' = Inr True"
proof -
  note r = predicates_resolved [OF sample_timestamp_resolution]
  have p: "is_past sample_today ''2030-06-15 12:30:45'' = Inr False"
    "is_future sample_today ''2030-06-15 12:30:45'' = Inr False"
    "is_today sample_today ''2030-06-15 12:30:45'' = Inr True"
    by (simp_all add: r)
  from inclusive_predicates_are_disjunctions [of sample_today "''2030-06-15 12:30:45''"] p
  show ?thesis by (simp add: py_or_def)
qed

text \<open>
  C7. For every resolution that produces a result, \<open>now_date\<close> and \<open>check_date\<close> are present
  together or absent together, and when present they have the same variant: both are
  calendar dates, or both are timestamps whose microseconds are zero.
\<close>

theorem resolved_pair_same_variant:
  assumes "get_dates today s = Inr dates"
  shows "(dates ''now_date'' = None \<longleftrightarrow> dates ''check_date'' = None) \<and>
    (\<forall>n c. dates ''now_date'' = Some n \<and> dates ''check_date'' = Some c \<longrightarrow>
       same_variant n c \<and> microsecond n = 0 \<and> microsecond c = 0)"
  using get_dates_cases [OF assms] by auto

text \<open>
  Witness for C7: the resolution of \<open>2030-06-15 12:30:45\<close> at 12:30:45.123456 holds two
  timestamps, the microseconds of the clock dropped.
\<close>

theorem resolved_pair_same_variant_witness:
  "get_dates sample_today ''2030-06-15 12:30:45'' =
     Inr (Map.empty(''now_date'' \<mapsto> DateTime (2030, 6, 15, 12, 30, 45, 0),
                    ''check_date'' \<mapsto> DateTime (2030, 6, 15, 12, 30, 45, 0))) \<and>
   same_variant (DateTime (2030, 6, 15, 12, 30, 45, 0)) (DateTime (2030, 6, 15, 12, 30, 45, 0)) \<and>
   microsecond (DateTime (2030, 6, 15, 12, 30, 45, 0)) = 0"
proof -
  from resolved_pair_same_variant [OF sample_timestamp_resolution]
  have "same_variant (DateTime (2030, 6, 15, 12, 30, 45, 0)) (DateTime (2030, 6, 15, 12, 30, 45, 0)) \<and>
        microsecond (DateTime (2030, 6, 15, 12, 30, 45, 0)) = 0"
    by simp
  with sample_timestamp_resolution show ?thesis by simp
qed

text \<open>
  C8. The strings \<open>1970-01-01T01:01:01\<close> and \<open>1970-01-01 01:01:01\<close> both resolve to the check
  value 1 January 1970, 01:01:01; and for every ten-character date part and every time part,
  the string with the separator \<open>T\<close> and the string with a space resolve alike: to the same
  pair, or both to the same failure.
\<close>

theorem separators_parse_alike:
  "(\<forall>d t. length d = 10 \<longrightarrow>
      get_dates today (d @ CHR ''T'' # t) = get_dates today (d @ CHR '' '' # t)) \<and>
   get_dates today ''1970-01-01T01:01:01'' =
     Inr (Map.empty(''now_date'' \<mapsto> DateTime (replace_microsecond today 0),
                    ''check_date'' \<mapsto> DateTime (1970, 1, 1, 1, 1, 1, 0))) \<and>
   get_dates today ''1970-01-01 01:01:01'' =
     Inr (Map.empty(''now_date'' \<mapsto> DateTime (replace_microsecond today 0),
                    ''check_date'' \<mapsto> DateTime (1970, 1, 1, 1, 1, 1, 0)))"
proof -
  have gen: "get_dates today (d @ CHR ''T'' # t) = get_dates today (d @ CHR '' '' # t)"
    if len: "length d = 10" for d t
  proof (cases "re_match pattern_T (d @ CHR ''T'' # t)")
    case True
    then have sp: "re_match pattern_space (d @ CHR '' '' # t)"
      using separated_string_matches(5) [OF len] by simp
    show ?thesis
      unfolding get_dates_T [OF True] get_dates_space [OF sp]
        separated_string_fields(1) [OF len]
        separated_string_fields(2) [OF len, of "CHR ''T''" t "CHR '' ''"]
      by simp
  next
    case False
    then have sp: "\<not> re_match pattern_space (d @ CHR '' '' # t)"
      using separated_string_matches(5) [OF len] by simp
    show ?thesis
      using get_dates_unmatched [OF separated_string_matches(1) [OF len] False
          separated_string_matches(2) [OF len]]
        get_dates_unmatched [OF separated_string_matches(3) [OF len]
          separated_string_matches(4) [OF len] sp]
      by simp
  qed
  have T: "re_match pattern_T ''1970-01-01T01:01:01''"
    by (simp add: re_match_def pattern_T_def date_atoms_def time_atoms_def is_digit_def)
  have S: "re_match pattern_space ''1970-01-01 01:01:01''"
    by (simp add: re_match_def pattern_space_def date_atoms_def time_atoms_def is_digit_def)
  have a: "get_dates today ''1970-01-01T01:01:01'' =
     Inr (Map.empty(''now_date'' \<mapsto> DateTime (replace_microsecond today 0),
                    ''check_date'' \<mapsto> DateTime (1970, 1, 1, 1, 1, 1, 0)))"
    unfolding get_dates_T [OF T]
    by (simp add: date_fields_def time_fields_def digit_value_def check_date_fields_def
        check_time_fields_def days_in_month_def is_leap_def)
  have b: "get_dates today ''1970-01-01 01:01:01'' =
     Inr (Map.empty(''now_date'' \<mapsto> DateTime (replace_microsecond today 0),
                    ''check_date'' \<mapsto> DateTime (1970, 1, 1, 1, 1, 1, 0)))"
    unfolding get_dates_space [OF S]
    by (simp add: date_fields_def time_fields_def digit_value_def check_date_fields_def
        check_time_fields_def days_in_month_def is_leap_def)
  from gen a b show ?thesis by blast
qed

text \<open>
  Witness for C8: the date part \<open>2030-06-16\<close> has ten characters, and with the time part
  \<open>00:00:00\<close> both separators give the check value 16 June 2030, 00:00:00.
\<close>

theorem separators_parse_alike_witness:
  "length ''2030-06-16'' = 10 \<and>
   get_dates sample_today ''2030-06-16T00:00:00'' = get_dates sample_today ''2030-06-16 00:00:00'' \<and>
   get_dates sample_today ''2030-06-16 00:00:00'' =
     Inr (Map.empty(''now_date'' \<mapsto> DateTime (2030, 6, 15, 12, 30, 45, 0),
                    ''check_date'' \<mapsto> DateTime (2030, 6, 16, 0, 0, 0, 0)))"
proof -
  have l: "length ''2030-06-16'' = 10" by simp
  from separators_parse_alike [of sample_today]
  have "length ''2030-06-16'' = 10 \<longrightarrow>
    get_dates sample_today (''2030-06-16'' @ CHR ''T'' # ''00:00:00'') =
    get_dates sample_today (''2030-06-16'' @ CHR '' '' # ''00:00:00'')"
    by blast
  with l have e: "get_dates sample_today ''2030-06-16T00:00:00'' =
      get_dates sample_today ''2030-06-16 00:00:00''"
    by simp
  have "get_dates sample_today ''2030-06-16 00:00:00'' =
     Inr (Map.empty(''now_date'' \<mapsto> DateTime (2030, 6, 15, 12, 30, 45, 0),
                    ''check_date'' \<mapsto> DateTime (2030, 6, 16, 0, 0, 0, 0)))"
    by (simp add: eval_defs)
  with l e show ?thesis by simp
qed

text \<open>
  C9, as the code has it. The registration table maps string names to six callables: its
  entries are named \<open>is_due\<close>, \<open>is_future\<close>, \<open>is_past\<close>, \<open>is_today_or_future\<close>,
  \<open>is_today_or_past\<close> and \<open>is_today\<close>, each bound to the predicate of the same name, and it
  has no other entry.
\<close>

theorem filters_table:
  "dom (map_of filters) =
     {''is_due'', ''is_future'', ''is_past'', ''is_today_or_future'', ''is_today_or_past'',
      ''is_today''} \<and>
   map_of filters ''is_due'' = Some (Filter2 is_due) \<and>
   map_of filters ''is_future'' = Some (Filter1 is_future) \<and>
   map_of filters ''is_past'' = Some (Filter1 is_past) \<and>
   map_of filters ''is_today_or_future'' = Some (Filter1 is_today_or_future) \<and>
   map_of filters ''is_today_or_past'' = Some (Filter1 is_today_or_past) \<and>
   map_of filters ''is_today'' = Some (Filter1 is_today)"
  by (simp add: filters_def dom_map_of_conv_image_fst)

text \<open>Witness for C9: the name \<open>is_past\<close> is in the table, an unregistered name is not.\<close>

theorem filters_table_witness:
  "''is_past'' \<in> dom (map_of filters) \<and> ''is_yesterday'' \<notin> dom (map_of filters)"
proof -
  from filters_table have "dom (map_of filters) =
     {''is_due'', ''is_future'', ''is_past'', ''is_today_or_future'', ''is_today_or_past'',
      ''is_today''}"
    by (rule conjunct1)
  then show ?thesis by simp
qed

text \<open>Counterexample to C9 as stated: the table has six entries, not seven.\<close>

theorem filters_table_not_seven:
  "card (dom (map_of filters)) = 6 \<and> card (dom (map_of filters)) \<noteq> 7"
proof -
  have "distinct (map fst filters)" by (simp add: filters_def)
  then have "card (set (map fst filters)) = length (map fst filters)" by (rule distinct_card)
  then show ?thesis by (simp add: dom_map_of_conv_image_fst filters_def)
qed

text \<open>
  C10. For every date string \<open>d\<close>, \<open>is_due\<close> called with the empty string as operator, or with
  no operator, does not fail with an unknown-operator error although the empty string is
  not one of the six symbols: the operator becomes \<open>==\<close> before the table is consulted, so
  the call returns what \<open>is_today(d)\<close> returns, a boolean when \<open>d\<close> is valid.
\<close>

theorem empty_operator_defaults_to_eq:
  "is_due today d (Some []) = is_today today d \<and>
   is_due today d None = is_today today d \<and>
   is_due today d (Some []) \<noteq> Inl (KeyError []) \<and>
   [] \<notin> set recognized_operators \<and>
   (valid_datestring d \<longrightarrow> (\<exists>b. is_due today d (Some []) = Inr b \<and> is_today today d = Inr b))"
proof -
  have e: "is_due today d (Some []) = is_today today d" "is_due today d None = is_today today d"
    by (simp_all add: is_due_default is_due_eq_is_today)
  have v: "\<exists>b. is_today today d = Inr b" if "valid_datestring d"
  proof -
    from that obtain n c where
      g: "get_dates today d = Inr (Map.empty(''now_date'' \<mapsto> n, ''check_date'' \<mapsto> c))"
      and s: "same_variant n c"
      by (erule valid_resolves)
    from s have "same_variant c n" by (cases n; cases c) simp_all
    from operator_total(1) [OF this] show ?thesis
      by (simp add: predicates_resolved [OF g])
  qed
  from e v is_today_not_operator_error [of today d] show ?thesis
    by (auto simp: recognized_operators_def)
qed

text \<open>
  Witness for C10: on 15 June 2030, \<open>is_due\<close> with the empty operator on the valid string
  \<open>2030-06-14\<close> returns false, as \<open>is_today\<close> does.
\<close>

theorem empty_operator_defaults_to_eq_witness:
  "valid_datestring ''2030-06-14'' \<and>
   is_due sample_today ''2030-06-14'' (Some []) = Inr False \<and>
   is_due sample_today ''2030-06-14'' None = Inr False \<and>
   is_today sample_today ''2030-06-14'' = Inr False"
proof -
  have v: "valid_datestring ''2030-06-14''"
    using sample_valid(1) by (simp add: valid_datestring_def)
  have t: "is_today sample_today ''2030-06-14'' = Inr False"
    by (simp add: predicates_resolved [OF sample_date_resolution])
  from empty_operator_defaults_to_eq [of sample_today "''2030-06-14''"] v t
  show ?thesis by simp
qed

end
